theory Spec2Isabelle
  imports Main "HOL-Library.Word"
begin

section \<open>The contract FHELaunchPrice (packages/hardhat/contracts/FHELaunchPrice.sol)\<close>

subsection \<open>Data\<close>

text \<open>
  Solidity value types: an \<open>address\<close> is 160 bits, \<open>uint256\<close> is 256 bits, and the FHE
  library's \<open>euint32\<close> and \<open>externalEuint32\<close> are user-defined value types over
  \<open>bytes32\<close>, that is, opaque 256-bit handles. \<open>bytes\<close> is a byte string.
\<close>

type_synonym address = "160 word"
type_synonym uint256 = "256 word"
type_synonym euint32 = "256 word"
type_synonym externalEuint32 = "256 word"
type_synonym bytes = "8 word list"

text \<open>\<open>event PriceGuessSubmitted(address indexed participant, uint256 timestamp)\<close>\<close>

datatype event = PriceGuessSubmitted address uint256

text \<open>
  What a transaction sees of its surroundings: \<open>msg.sender\<close>, \<open>address(this)\<close> and
  \<open>block.timestamp\<close>.
\<close>

record tx_env =
  msg_sender :: address
  this_address :: address
  block_timestamp :: uint256

text \<open>
  The state a transaction can change. The first three fields are the contract's private
  mappings \<open>_encryptedGuesses\<close>, \<open>_hasSubmitted\<close> and \<open>_lastGuessTime\<close>; a Solidity
  mapping is total, every key starting at the zero value. \<open>acl\<close> is the permission
  system of the FHE library, which lives outside the contract: the pairs (handle, account)
  for which decryption has been allowed. \<open>events\<close> is the log, oldest entry first.
\<close>

record world =
  st_encryptedGuesses :: "address \<Rightarrow> euint32"
  st_hasSubmitted :: "address \<Rightarrow> bool"
  st_lastGuessTime :: "address \<Rightarrow> uint256"
  acl :: "(euint32 \<times> address) set"
  events :: "event list"

text \<open>The state right after deployment: the contract has no constructor of its own.\<close>

definition deployed :: world where
  "deployed = \<lparr> st_encryptedGuesses = (\<lambda>_. 0), st_hasSubmitted = (\<lambda>_. False),
      st_lastGuessTime = (\<lambda>_. 0), acl = {}, events = [] \<rparr>"

text \<open>
  A call reverts either inside \<open>FHE.fromExternal\<close> or at a \<open>require\<close>, which carries its
  reason string.
\<close>

datatype error = FromExternalReverted | RequireFailed string

subsection \<open>The FHE library, as far as the contract uses it\<close>

text \<open>
  \<open>FHE.fromExternal\<close> is code of the imported library \<open>@fhevm/solidity\<close>, so it is a
  parameter of the model: given the transaction's surroundings, the external handle and the
  proof, it returns the verified handle, or it reverts (\<open>None\<close>).
\<close>

type_synonym verifier = "tx_env \<Rightarrow> externalEuint32 \<Rightarrow> bytes \<Rightarrow> euint32 option"

text \<open>
  \<open>FHE.allow(handle, account)\<close> adds the account to the accounts allowed on the handle,
  and \<open>FHE.allowThis(handle)\<close> is \<open>FHE.allow(handle, address(this))\<close>. Both are
  library code as well. The contract calls them only on a handle it may itself use, the one
  just verified or the stored one of a caller who has submitted, and there they do not
  revert.
\<close>

definition FHE_allow :: "euint32 \<Rightarrow> address \<Rightarrow> world \<Rightarrow> world" where
  "FHE_allow h account w = w\<lparr> acl := insert (h, account) (acl w) \<rparr>"

definition FHE_allowThis :: "tx_env \<Rightarrow> euint32 \<Rightarrow> world \<Rightarrow> world" where
  "FHE_allowThis env h w = FHE_allow h (this_address env) w"

definition emit :: "event \<Rightarrow> world \<Rightarrow> world" where
  "emit e w = w\<lparr> events := events w @ [e] \<rparr>"

subsection \<open>The contract's functions\<close>

text \<open>
  \<open>submitPriceGuess\<close>, statement by statement. The result is \<open>Inl\<close> when the call
  reverts and \<open>Inr\<close> of the state the body leaves otherwise.
\<close>

definition submitPriceGuess ::
  "verifier \<Rightarrow> tx_env \<Rightarrow> externalEuint32 \<Rightarrow> bytes \<Rightarrow> world \<Rightarrow> error + world" where
  "submitPriceGuess fromExternal env encryptedGuess zkProof w =
     (case fromExternal env encryptedGuess zkProof of
        None \<Rightarrow> Inl FromExternalReverted
      | Some internalEnc \<Rightarrow>
          (let w1 = w\<lparr> st_encryptedGuesses := (st_encryptedGuesses w)(msg_sender env := internalEnc) \<rparr>;
               w2 = w1\<lparr> st_hasSubmitted := (st_hasSubmitted w1)(msg_sender env := True) \<rparr>;
               w3 = w2\<lparr> st_lastGuessTime := (st_lastGuessTime w2)(msg_sender env := block_timestamp env) \<rparr>;
               w4 = FHE_allow (st_encryptedGuesses w3 (msg_sender env)) (msg_sender env) w3;
               w5 = FHE_allowThis env (st_encryptedGuesses w4 (msg_sender env)) w4
           in Inr (emit (PriceGuessSubmitted (msg_sender env) (block_timestamp env)) w5)))"

definition hasSubmitted :: "world \<Rightarrow> address \<Rightarrow> bool" where
  "hasSubmitted w user = st_hasSubmitted w user"

definition encryptedGuessOf :: "world \<Rightarrow> address \<Rightarrow> euint32" where
  "encryptedGuessOf w user = st_encryptedGuesses w user"

definition lastGuessTimestamp :: "world \<Rightarrow> address \<Rightarrow> uint256" where
  "lastGuessTimestamp w user = st_lastGuessTime w user"

definition allowDecryption :: "tx_env \<Rightarrow> address \<Rightarrow> world \<Rightarrow> error + world" where
  "allowDecryption env grantee w =
     (if \<not> st_hasSubmitted w (msg_sender env) then Inl (RequireFailed ''No guess submitted'')
      else Inr (FHE_allow (st_encryptedGuesses w (msg_sender env)) grantee w))"

subsection \<open>Calls and transactions\<close>

text \<open>
  The five external functions of the contract, and what a call returns. A call that
  reverts leaves the state as it was before the call (the EVM rolls the transaction back);
  the three \<open>view\<close> functions read the state and never change it.
\<close>

datatype call =
    SubmitPriceGuess externalEuint32 bytes
  | HasSubmitted address
  | EncryptedGuessOf address
  | is_LastGuessTimestamp: LastGuessTimestamp address
  | AllowDecryption address

datatype retval = RUnit | RBool bool | RHandle euint32 | RUint uint256

fun transact :: "verifier \<Rightarrow> tx_env \<Rightarrow> call \<Rightarrow> world \<Rightarrow> (error + retval) \<times> world" where
  "transact fromExternal env (SubmitPriceGuess encryptedGuess zkProof) w =
     (case submitPriceGuess fromExternal env encryptedGuess zkProof w of
        Inl e \<Rightarrow> (Inl e, w) | Inr w' \<Rightarrow> (Inr RUnit, w'))"
| "transact fromExternal env (HasSubmitted user) w = (Inr (RBool (hasSubmitted w user)), w)"
| "transact fromExternal env (EncryptedGuessOf user) w = (Inr (RHandle (encryptedGuessOf w user)), w)"
| "transact fromExternal env (LastGuessTimestamp user) w = (Inr (RUint (lastGuessTimestamp w user)), w)"
| "transact fromExternal env (AllowDecryption grantee) w =
     (case allowDecryption env grantee w of
        Inl e \<Rightarrow> (Inl e, w) | Inr w' \<Rightarrow> (Inr RUnit, w'))"

text \<open>A history: the calls made to the contract, in order, each with its surroundings.\<close>

fun run :: "verifier \<Rightarrow> (tx_env \<times> call) list \<Rightarrow> world \<Rightarrow> world" where
  "run fromExternal [] w = w"
| "run fromExternal ((env, c) # cs) w = run fromExternal cs (snd (transact fromExternal env c w))"

text \<open>
  Decryption is the work of the external FHE subsystem (the test suite's
  \<open>fhevm.userDecryptEuint(type, handle, contractAddress, signer)\<close>). Two things about it
  matter here and both are parameters or read off the permission system: every handle stands
  for one 32-bit plaintext, given by \<open>plaintext\<close>, and the subsystem reveals it to a user
  only when that user and the contract holding the handle are both allowed on the handle.
\<close>

definition userDecrypt ::
  "(euint32 \<Rightarrow> 32 word) \<Rightarrow> world \<Rightarrow> euint32 \<Rightarrow> address \<Rightarrow> address \<Rightarrow> 32 word option" where
  "userDecrypt plaintext w h contractAddress user =
     (if (h, user) \<in> acl w \<and> (h, contractAddress) \<in> acl w then Some (plaintext h) else None)"

text \<open>
  Whether an entry of a history is a call of \<open>submitPriceGuess\<close> from \<open>user\<close> whose
  verification goes through.
\<close>

fun successful_submission :: "verifier \<Rightarrow> address \<Rightarrow> tx_env \<times> call \<Rightarrow> bool" where
  "successful_submission fromExternal user (env, SubmitPriceGuess encryptedGuess zkProof) =
     (msg_sender env = user \<and> fromExternal env encryptedGuess zkProof \<noteq> None)"
| "successful_submission fromExternal user (env, _) = False"

text \<open>
  A verifier to run the model on, in the manner of the mock the test suite runs against: it
  accepts every input with a non-empty proof and hands the external handle back.
\<close>

definition mock_fromExternal :: verifier where
  "mock_fromExternal env encryptedGuess zkProof =
     (if zkProof = [] then None else Some encryptedGuess)"

definition charlie :: tx_env where
  "charlie = \<lparr> msg_sender = 1, this_address = 9, block_timestamp = 1000 \<rparr>"

definition dana :: tx_env where
  "dana = \<lparr> msg_sender = 2, this_address = 9, block_timestamp = 2000 \<rparr>"

section \<open>The hook useLaunchPrice (packages/nextjs/hooks/useLaunchPrice.ts)\<close>

subsection \<open>Derived values\<close>

text \<open>
  \<open>encryptedHandle\<close> has the type \<open>string | undefined\<close>; \<open>undefined\<close> is \<open>None\<close>. The
  JavaScript test \<open>!x\<close> holds of \<open>undefined\<close> and of the empty string.
\<close>

definition falsy :: "string option \<Rightarrow> bool" where
  "falsy x = (case x of None \<Rightarrow> True | Some s \<Rightarrow> s = [])"

text \<open>\<open>ethers.ZeroHash\<close>: \<open>0x\<close> and 64 zero digits.\<close>

definition ZeroHash :: string where
  "ZeroHash = ''0x0000000000000000000000000000000000000000000000000000000000000000''"

text \<open>The value \<open>hasSubmitted\<close> that the hook derives from the handle it has read.\<close>

definition hasSubmitted_hook :: "string option \<Rightarrow> bool" where
  "hasSubmitted_hook encryptedHandle =
     (if falsy encryptedHandle then False
      else encryptedHandle \<noteq> Some ZeroHash \<and> encryptedHandle \<noteq> Some ''0x0'')"

text \<open>
  \<open>results\<close> is the record of decrypted values that \<open>useFHEDecrypt\<close> returns, keyed by
  handle, or \<open>undefined\<close>. The handle is an \<open>euint32\<close>, whose clear value the decryption
  subsystem gives as a bigint, and \<open>BigInt\<close> of a bigint is that bigint.
\<close>

definition BigInt :: "int \<Rightarrow> int" where
  "BigInt v = v"

definition valueDecrypted :: "string option \<Rightarrow> (string \<rightharpoonup> int) option \<Rightarrow> bool" where
  "valueDecrypted encryptedHandle results =
     (case (encryptedHandle, results) of
        (Some h, Some r) \<Rightarrow>
          (if h = [] then False
           else (case r h of None \<Rightarrow> False | Some val \<Rightarrow> BigInt val \<noteq> BigInt 0))
      | _ \<Rightarrow> False)"

subsection \<open>submitValue\<close>

text \<open>
  An awaited call either throws or returns. \<open>Throws\<close> carries the text the \<open>catch\<close>
  clause makes of the thrown value: \<open>err.message\<close> for an \<open>Error\<close>, \<open>String(err)\<close>
  otherwise. Every awaited promise is taken to settle.
\<close>

datatype 'a outcome = Throws string | Returns 'a

text \<open>\<open>contractInfo\<close>, of which the hook reads \<open>address\<close> and \<open>abi\<close>.\<close>

record 'a contract_info =
  info_address :: "string option"
  info_abi :: "'a option"

text \<open>
  What one call of \<open>submitValue\<close> finds around it: the values the callback has captured
  and the behaviour of the functions it calls out to, all of them code outside the
  repository. \<open>submitValue\<close> is made by \<open>useCallback\<close>, so the constants it reads are
  those of the render that made the callback: \<open>busy\<close>, \<open>accounts\<close>, \<open>contractInfo\<close>, the
  signer and the read-only provider. In particular \<open>busy\<close> here is the constant of
  \<open>const [busy, setBusy] = useState(false)\<close> as that render saw it; \<open>setBusy\<close> writes the
  React state behind it (\<open>busy_flag\<close> below) and does not change what a callback that
  already exists has captured. The type variables stand for the amount (a JavaScript
  number), the encrypted payload, the ABI, the signer or provider, the contract object, the
  call parameters and the transaction.
\<close>

record ('n, 'e, 'a, 's, 'c, 'p, 't) surroundings =
  busy :: bool
  accounts :: "string list option"
  contractInfo :: "'a contract_info option"
  ethersSigner :: "'s option"
  ethersReadonlyProvider :: "'s option"
  toString :: "'n \<Rightarrow> string"
  encryptWith :: "'n \<Rightarrow> 'e option outcome"
  newContract :: "string option \<Rightarrow> 'a option \<Rightarrow> 's \<Rightarrow> 'c outcome"
  buildParamsFromAbi :: "'e \<Rightarrow> 'a option \<Rightarrow> 'p outcome"
  send_submitPriceGuess :: "'c \<Rightarrow> 'p \<Rightarrow> 't outcome"
  tx_wait :: "'t \<Rightarrow> unit outcome"
  reloadValue :: "unit outcome"

text \<open>
  The calls that leave the hook. \<open>SendTransaction\<close> is the only one that can change the
  state of the chain.
\<close>

datatype request = Encrypt | SendTransaction | WaitForReceipt | Reload

text \<open>
  The hook's two pieces of React state, the busy flag and the status text, which
  \<open>setBusy\<close> and \<open>setStatus\<close> write; and beside them the requests made so far, oldest
  first, which the source does not store: it is kept here to say what a call did.
\<close>

record hook_state =
  busy_flag :: bool
  status :: string
  requests :: "request list"

definition setBusy :: "bool \<Rightarrow> hook_state \<Rightarrow> hook_state" where
  "setBusy b st = st\<lparr> busy_flag := b \<rparr>"

definition setStatus :: "string \<Rightarrow> hook_state \<Rightarrow> hook_state" where
  "setStatus s st = st\<lparr> status := s \<rparr>"

definition request :: "request \<Rightarrow> hook_state \<Rightarrow> hook_state" where
  "request r st = st\<lparr> requests := requests st @ [r] \<rparr>"

text \<open>\<open>Boolean(contractInfo?.address && contractInfo?.abi)\<close>\<close>

definition hasContract :: "('n, 'e, 'a, 's, 'c, 'p, 't) surroundings \<Rightarrow> bool" where
  "hasContract x =
     (case contractInfo x of
        None \<Rightarrow> False
      | Some info \<Rightarrow> \<not> falsy (info_address info) \<and> info_abi info \<noteq> None)"

text \<open>\<open>accounts?.[0]\<close>: \<open>undefined\<close> when there is no array or the array is empty.\<close>

definition first_account :: "('n, 'e, 'a, 's, 'c, 'p, 't) surroundings \<Rightarrow> string option" where
  "first_account x =
     (case accounts x of None \<Rightarrow> None | Some [] \<Rightarrow> None | Some (a # _) \<Rightarrow> Some a)"

text \<open>
  Reading a property of \<open>undefined\<close> throws a TypeError; \<open>contractInfo!\<close> asserts only
  to the type checker.
\<close>

definition TypeError_undefined :: "string \<Rightarrow> string" where
  "TypeError_undefined property =
     ''Cannot read properties of undefined (reading '' @ [CHR 0x27] @ property @ [CHR 0x27] @ '')''"

datatype mode = Read | Write

definition getContract ::
  "('n, 'e, 'a, 's, 'c, 'p, 't) surroundings \<Rightarrow> mode \<Rightarrow> 'c option outcome" where
  "getContract x mode =
     (if \<not> hasContract x then Returns None
      else (case (case mode of Read \<Rightarrow> ethersReadonlyProvider x | Write \<Rightarrow> ethersSigner x) of
              None \<Rightarrow> Returns None
            | Some providerOrSigner \<Rightarrow>
                (case contractInfo x of
                   None \<Rightarrow> Throws (TypeError_undefined ''address'')
                 | Some info \<Rightarrow>
                     (case newContract x (info_address info) (info_abi info) providerOrSigner of
                        Throws m \<Rightarrow> Throws m
                      | Returns c \<Rightarrow> Returns (Some c)))))"

text \<open>
  The \<open>try\<close> block. The result says whether the block threw, and with what text, and gives
  the state at the point where it threw or ended.
\<close>

definition try_block ::
  "('n, 'e, 'a, 's, 'c, 'p, 't) surroundings \<Rightarrow> string \<Rightarrow> 'n \<Rightarrow> hook_state
     \<Rightarrow> string option \<times> hook_state" where
  "try_block x label amount st0 =
     (let st1 = request Encrypt st0 in
      case encryptWith x amount of
        Throws m \<Rightarrow> (Some m, st1)
      | Returns None \<Rightarrow> (Some ''Encryption failed'', st1)
      | Returns (Some encrypted) \<Rightarrow>
     (case getContract x Write of
        Throws m \<Rightarrow> (Some m, st1)
      | Returns None \<Rightarrow> (Some ''Contract signer missing'', st1)
      | Returns (Some writeContract) \<Rightarrow>
     (case contractInfo x of
        None \<Rightarrow> (Some (TypeError_undefined ''abi''), st1)
      | Some info \<Rightarrow>
     (case buildParamsFromAbi x encrypted (info_abi info) of
        Throws m \<Rightarrow> (Some m, st1)
      | Returns params \<Rightarrow>
     (let st2 = request SendTransaction st1 in
      case send_submitPriceGuess x writeContract params of
        Throws m \<Rightarrow> (Some m, st2)
      | Returns tx \<Rightarrow>
     (let st3 = setStatus ''Waiting for blockchain confirmation...'' st2;
          st4 = request WaitForReceipt st3 in
      case tx_wait x tx of
        Throws m \<Rightarrow> (Some m, st4)
      | Returns _ \<Rightarrow>
     (let st5 = setStatus (''Value submitted for '' @ label) st4;
          st6 = request Reload st5 in
      case reloadValue x of
        Throws m \<Rightarrow> (Some m, st6)
      | Returns _ \<Rightarrow> (None, st6))))))))"

text \<open>
  \<open>submitValue\<close>: the guard, then \<open>try\<close>, \<open>catch\<close> and \<open>finally\<close>. The guard reads
  the captured \<open>busy\<close>, not the state.
\<close>

definition submitValue ::
  "('n, 'e, 'a, 's, 'c, 'p, 't) surroundings \<Rightarrow> string \<Rightarrow> 'n \<Rightarrow> hook_state \<Rightarrow> hook_state" where
  "submitValue x label amount st =
     (if busy x \<or> falsy (first_account x) \<or> \<not> hasContract x then st
      else
        (let st1 = setBusy True st;
             st2 = setStatus (''Encrypting '' @ toString x amount @ '' for '' @ label @ ''...'') st1;
             (thrown, st3) = try_block x label amount st2;
             st4 = (case thrown of
                      None \<Rightarrow> st3
                    | Some message \<Rightarrow> setStatus (''Submission error: '' @ message) st3)
         in setBusy False st4))"

text \<open>
  An \<open>async\<close> function runs up to its first \<open>await\<close> and gives control back. For a call
  of \<open>submitValue\<close> that has passed the guard that point is \<open>await encryptWith(...)\<close>: the
  call has run \<open>setBusy(true)\<close> and \<open>setStatus\<close> and has called \<open>encryptWith\<close>. This is
  the state it leaves while it waits.
\<close>

definition first_await ::
  "('n, 'e, 'a, 's, 'c, 'p, 't) surroundings \<Rightarrow> string \<Rightarrow> 'n \<Rightarrow> hook_state \<Rightarrow> hook_state" where
  "first_await x label amount st =
     request Encrypt
       (setStatus (''Encrypting '' @ toString x amount @ '' for '' @ label @ ''...'')
          (setBusy True st))"

text \<open>
  A session to run \<open>submitValue\<close> on: a callback made by a render in which \<open>busy\<close> was
  false, a connected account, a deployed contract, a signer, and collaborators that all
  succeed. The amount is a natural number, written in decimal.
\<close>

fun decimal :: "nat \<Rightarrow> string" where
  "decimal n =
     (if n < 10 then [char_of (48 + n)] else decimal (n div 10) @ [char_of (48 + n mod 10)])"

declare decimal.simps [simp del]

definition session ::
  "(nat, externalEuint32 \<times> bytes, string list, string, string \<times> string, externalEuint32 \<times> bytes, string)
     surroundings" where
  "session = \<lparr>
     busy = False,
     accounts = Some [''0xc4a2''],
     contractInfo = Some \<lparr> info_address = Some ''0xfe11'', info_abi = Some [''submitPriceGuess''] \<rparr>,
     ethersSigner = Some ''signer'',
     ethersReadonlyProvider = Some ''provider'',
     toString = decimal,
     encryptWith = (\<lambda>amount. Returns (Some (of_nat amount, [1]))),
     newContract = (\<lambda>a abi runner. case a of None \<Rightarrow> Throws ''invalid target''
                                     | Some a' \<Rightarrow> Returns (a', runner)),
     buildParamsFromAbi = (\<lambda>encrypted abi. Returns encrypted),
     send_submitPriceGuess = (\<lambda>c params. Returns ''0x7a''),
     tx_wait = (\<lambda>tx. Returns ()),
     reloadValue = Returns () \<rparr>"

definition idle :: hook_state where
  "idle = \<lparr> busy_flag = False, status = [], requests = [] \<rparr>"

section \<open>Properties of the contract\<close>

lemma submitPriceGuess_Inr:
  "submitPriceGuess fromExternal env encryptedGuess zkProof w = Inr w' \<longleftrightarrow>
     (\<exists>h. fromExternal env encryptedGuess zkProof = Some h \<and>
        w' = \<lparr> st_encryptedGuesses = (st_encryptedGuesses w)(msg_sender env := h),
               st_hasSubmitted = (st_hasSubmitted w)(msg_sender env := True),
               st_lastGuessTime = (st_lastGuessTime w)(msg_sender env := block_timestamp env),
               acl = insert (h, this_address env) (insert (h, msg_sender env) (acl w)),
               events = events w @ [PriceGuessSubmitted (msg_sender env) (block_timestamp env)] \<rparr>)"
  by (cases "fromExternal env encryptedGuess zkProof")
     (auto simp: submitPriceGuess_def FHE_allow_def FHE_allowThis_def emit_def Let_def)

text \<open>
  C1. Whoever the caller is, when a call of \<open>submitPriceGuess\<close> succeeds, the verifier
  has returned a handle for the pair (encryptedGuess, proof), and the state the call leaves
  has that handle in the caller's record, the caller's submitted flag set, the caller's last
  guess time equal to the block time, the caller and the contract itself both allowed on the
  handle, and one more event at the end of the log, \<open>PriceGuessSubmitted\<close> with the
  caller's address and the block time.
\<close>

theorem submitPriceGuess_effects:
  assumes "submitPriceGuess fromExternal env encryptedGuess zkProof w = Inr w'"
  shows "\<exists>h. fromExternal env encryptedGuess zkProof = Some h
      \<and> encryptedGuessOf w' (msg_sender env) = h
      \<and> hasSubmitted w' (msg_sender env) = True
      \<and> lastGuessTimestamp w' (msg_sender env) = block_timestamp env
      \<and> (encryptedGuessOf w' (msg_sender env), msg_sender env) \<in> acl w'
      \<and> (encryptedGuessOf w' (msg_sender env), this_address env) \<in> acl w'
      \<and> events w' = events w @ [PriceGuessSubmitted (msg_sender env) (lastGuessTimestamp w' (msg_sender env))]"
proof -
  from assms obtain h where h: "fromExternal env encryptedGuess zkProof = Some h"
    and w': "w' = \<lparr> st_encryptedGuesses = (st_encryptedGuesses w)(msg_sender env := h),
               st_hasSubmitted = (st_hasSubmitted w)(msg_sender env := True),
               st_lastGuessTime = (st_lastGuessTime w)(msg_sender env := block_timestamp env),
               acl = insert (h, this_address env) (insert (h, msg_sender env) (acl w)),
               events = events w @ [PriceGuessSubmitted (msg_sender env) (block_timestamp env)] \<rparr>"
    unfolding submitPriceGuess_Inr by blast
  show ?thesis
    using h by (simp add: w' encryptedGuessOf_def hasSubmitted_def lastGuessTimestamp_def)
qed

theorem submitPriceGuess_effects_witness:
  "\<exists>w'. submitPriceGuess mock_fromExternal charlie 77 [1] deployed = Inr w'
      \<and> encryptedGuessOf w' 1 = 77 \<and> hasSubmitted w' 1 \<and> lastGuessTimestamp w' 1 = 1000
      \<and> (77, 1) \<in> acl w' \<and> (77, 9) \<in> acl w'
      \<and> events w' = [PriceGuessSubmitted 1 1000]"
proof -
  obtain w' where a: "submitPriceGuess mock_fromExternal charlie 77 [1] deployed = Inr w'"
    by (simp add: submitPriceGuess_def mock_fromExternal_def Let_def)
  from submitPriceGuess_effects [OF a]
  have "encryptedGuessOf w' 1 = 77 \<and> hasSubmitted w' 1 \<and> lastGuessTimestamp w' 1 = 1000
      \<and> (77, 1) \<in> acl w' \<and> (77, 9) \<in> acl w'
      \<and> events w' = [PriceGuessSubmitted 1 1000]"
    by (auto simp: mock_fromExternal_def charlie_def deployed_def)
  with a show ?thesis by blast
qed


text \<open>
  C2. When the caller's submitted flag is false, a call of \<open>allowDecryption\<close> reverts at its
  \<open>require\<close>, the revert reason is the string the source gives it, \<open>No guess submitted\<close>,
  and the state after the call is the state before it. When the flag is true, the call
  succeeds and the accounts allowed on the caller's stored handle are those allowed before
  and the grantee; the mappings and the log stay as they were.
\<close>

theorem allowDecryption_requires_submission:
  "(\<not> hasSubmitted w (msg_sender env) \<longrightarrow>
      allowDecryption env grantee w = Inl (RequireFailed ''No guess submitted'')
      \<and> transact fromExternal env (AllowDecryption grantee) w
          = (Inl (RequireFailed ''No guess submitted''), w))
   \<and> (hasSubmitted w (msg_sender env) \<longrightarrow>
      (\<exists>w'. transact fromExternal env (AllowDecryption grantee) w = (Inr RUnit, w')
         \<and> {a. (encryptedGuessOf w (msg_sender env), a) \<in> acl w'}
             = insert grantee {a. (encryptedGuessOf w (msg_sender env), a) \<in> acl w}
         \<and> acl w' = insert (encryptedGuessOf w (msg_sender env), grantee) (acl w)
         \<and> st_encryptedGuesses w' = st_encryptedGuesses w
         \<and> st_hasSubmitted w' = st_hasSubmitted w
         \<and> st_lastGuessTime w' = st_lastGuessTime w
         \<and> events w' = events w))"
  by (auto simp: allowDecryption_def FHE_allow_def hasSubmitted_def encryptedGuessOf_def)

theorem allowDecryption_requires_submission_witness:
  "transact mock_fromExternal charlie (AllowDecryption 2) deployed
     = (Inl (RequireFailed ''No guess submitted''), deployed)
   \<and> (\<exists>w'. transact mock_fromExternal charlie (AllowDecryption 2)
              (run mock_fromExternal [(charlie, SubmitPriceGuess 77 [1])] deployed) = (Inr RUnit, w')
         \<and> acl w' = {(77, 2), (77, 9), (77, 1)})"
proof -
  let ?w = "run mock_fromExternal [(charlie, SubmitPriceGuess 77 [1])] deployed"
  have no: "\<not> hasSubmitted deployed (msg_sender charlie)"
    by (simp add: hasSubmitted_def deployed_def)
  have yes: "hasSubmitted ?w (msg_sender charlie)"
    by (simp add: hasSubmitted_def submitPriceGuess_def mock_fromExternal_def
        FHE_allow_def FHE_allowThis_def emit_def Let_def)
  have h: "encryptedGuessOf ?w (msg_sender charlie) = 77"
    by (simp add: encryptedGuessOf_def submitPriceGuess_def mock_fromExternal_def
        FHE_allow_def FHE_allowThis_def emit_def Let_def)
  have a: "acl ?w = {(77, 9), (77, 1)}"
    by (simp add: submitPriceGuess_def mock_fromExternal_def charlie_def deployed_def
        FHE_allow_def FHE_allowThis_def emit_def Let_def)
  from allowDecryption_requires_submission [of deployed charlie 2 mock_fromExternal] no
  have 1: "transact mock_fromExternal charlie (AllowDecryption 2) deployed
     = (Inl (RequireFailed ''No guess submitted''), deployed)"
    by blast
  from allowDecryption_requires_submission [of ?w charlie 2 mock_fromExternal] yes
  obtain w' where "transact mock_fromExternal charlie (AllowDecryption 2) ?w = (Inr RUnit, w')"
    and "acl w' = insert (encryptedGuessOf ?w (msg_sender charlie), 2) (acl ?w)"
    by blast
  then have 2: "\<exists>w'. transact mock_fromExternal charlie (AllowDecryption 2) ?w = (Inr RUnit, w')
         \<and> acl w' = {(77, 2), (77, 9), (77, 1)}"
    unfolding h a by blast
  from 1 2 show ?thesis by blast
qed

text \<open>
  C5. When \<open>FHE.fromExternal\<close> reverts, \<open>submitPriceGuess\<close> has written nothing yet: the
  verification is its first statement. The call reverts and the state after it is the state
  before it, so the three mappings, the permissions and the log are all as they were.
\<close>

theorem submitPriceGuess_failure_atomic:
  assumes "fromExternal env encryptedGuess zkProof = None"
  shows "submitPriceGuess fromExternal env encryptedGuess zkProof w = Inl FromExternalReverted
    \<and> transact fromExternal env (SubmitPriceGuess encryptedGuess zkProof) w
        = (Inl FromExternalReverted, w)
    \<and> (let w' = snd (transact fromExternal env (SubmitPriceGuess encryptedGuess zkProof) w)
       in st_encryptedGuesses w' = st_encryptedGuesses w
        \<and> st_hasSubmitted w' = st_hasSubmitted w
        \<and> st_lastGuessTime w' = st_lastGuessTime w
        \<and> acl w' = acl w
        \<and> events w' = events w)"
  using assms by (simp add: submitPriceGuess_def)

theorem submitPriceGuess_failure_atomic_witness:
  "mock_fromExternal charlie 77 [] = None
   \<and> transact mock_fromExternal charlie (SubmitPriceGuess 77 []) deployed
       = (Inl FromExternalReverted, deployed)"
proof -
  have n: "mock_fromExternal charlie 77 [] = None"
    by (simp add: mock_fromExternal_def)
  from submitPriceGuess_failure_atomic [of mock_fromExternal charlie 77 "[]" deployed] n
  show ?thesis by blast
qed


lemma transact_submit_success:
  assumes "fromExternal env encryptedGuess zkProof = Some h"
  shows "snd (transact fromExternal env (SubmitPriceGuess encryptedGuess zkProof) w)
     = \<lparr> st_encryptedGuesses = (st_encryptedGuesses w)(msg_sender env := h),
         st_hasSubmitted = (st_hasSubmitted w)(msg_sender env := True),
         st_lastGuessTime = (st_lastGuessTime w)(msg_sender env := block_timestamp env),
         acl = insert (h, this_address env) (insert (h, msg_sender env) (acl w)),
         events = events w @ [PriceGuessSubmitted (msg_sender env) (block_timestamp env)] \<rparr>"
  using assms
  by (simp add: submitPriceGuess_def FHE_allow_def FHE_allowThis_def emit_def Let_def)

text \<open>
  C3. An address submits twice, first an input that verifies to the handle \<open>h1\<close> with
  plaintext \<open>v1\<close>, then one that verifies to \<open>h2\<close> with plaintext \<open>v2\<close>. Afterwards the
  submitted flag of the address is true, the stored handle is \<open>h2\<close>, and the address
  decrypts the stored handle to \<open>v2\<close>; so when the two values differ it does not decrypt
  to \<open>v1\<close>.
\<close>

theorem resubmission_overwrites:
  assumes "fromExternal env1 e1 p1 = Some h1" and "plaintext h1 = v1"
    and "fromExternal env2 e2 p2 = Some h2" and "plaintext h2 = v2"
    and "msg_sender env2 = msg_sender env1"
  shows "let w2 = run fromExternal
             [(env1, SubmitPriceGuess e1 p1), (env2, SubmitPriceGuess e2 p2)] w;
             stored = encryptedGuessOf w2 (msg_sender env1)
         in hasSubmitted w2 (msg_sender env1)
          \<and> stored = h2
          \<and> userDecrypt plaintext w2 stored (this_address env2) (msg_sender env1) = Some v2
          \<and> (v1 \<noteq> v2 \<longrightarrow>
               userDecrypt plaintext w2 stored (this_address env2) (msg_sender env1) \<noteq> Some v1)"
proof -
  define w1 where "w1 = snd (transact fromExternal env1 (SubmitPriceGuess e1 p1) w)"
  define w2 where "w2 = snd (transact fromExternal env2 (SubmitPriceGuess e2 p2) w1)"
  have r: "run fromExternal
      [(env1, SubmitPriceGuess e1 p1), (env2, SubmitPriceGuess e2 p2)] w = w2"
    by (simp add: w1_def w2_def)
  have w2: "w2 = \<lparr> st_encryptedGuesses = (st_encryptedGuesses w1)(msg_sender env2 := h2),
         st_hasSubmitted = (st_hasSubmitted w1)(msg_sender env2 := True),
         st_lastGuessTime = (st_lastGuessTime w1)(msg_sender env2 := block_timestamp env2),
         acl = insert (h2, this_address env2) (insert (h2, msg_sender env2) (acl w1)),
         events = events w1 @ [PriceGuessSubmitted (msg_sender env2) (block_timestamp env2)] \<rparr>"
    unfolding w2_def using assms(3) by (rule transact_submit_success)
  show ?thesis
    unfolding r Let_def
    by (simp add: w2 assms hasSubmitted_def encryptedGuessOf_def userDecrypt_def)
qed

theorem resubmission_overwrites_witness:
  "hasSubmitted (run mock_fromExternal
       [(charlie, SubmitPriceGuess 2500 [1]), (charlie, SubmitPriceGuess 2700 [1])] deployed) 1
   \<and> encryptedGuessOf (run mock_fromExternal
       [(charlie, SubmitPriceGuess 2500 [1]), (charlie, SubmitPriceGuess 2700 [1])] deployed) 1 = 2700
   \<and> userDecrypt ucast (run mock_fromExternal
       [(charlie, SubmitPriceGuess 2500 [1]), (charlie, SubmitPriceGuess 2700 [1])] deployed)
       (encryptedGuessOf (run mock_fromExternal
       [(charlie, SubmitPriceGuess 2500 [1]), (charlie, SubmitPriceGuess 2700 [1])] deployed) 1)
       9 1 = Some 2700
   \<and> userDecrypt ucast (run mock_fromExternal
       [(charlie, SubmitPriceGuess 2500 [1]), (charlie, SubmitPriceGuess 2700 [1])] deployed)
       (encryptedGuessOf (run mock_fromExternal
       [(charlie, SubmitPriceGuess 2500 [1]), (charlie, SubmitPriceGuess 2700 [1])] deployed) 1)
       9 1 \<noteq> Some 2500"
proof -
  have 1: "mock_fromExternal charlie 2500 [1] = Some 2500"
    and 2: "mock_fromExternal charlie 2700 [1] = Some 2700"
    by (simp_all add: mock_fromExternal_def)
  have 3: "(ucast (2500 :: euint32) :: 32 word) = 2500"
    and 4: "(ucast (2700 :: euint32) :: 32 word) = 2700"
    by simp_all
  have c: "msg_sender charlie = 1" "this_address charlie = 9"
    by (simp_all add: charlie_def)
  have ne: "(2500 :: 32 word) \<noteq> 2700"
    by simp
  note t = resubmission_overwrites [of mock_fromExternal charlie 2500 "[1]" 2500 ucast 2500
      charlie 2700 "[1]" 2700 2700 deployed, OF 1 3 2 4 refl, unfolded Let_def c]
  from t ne show ?thesis by blast
qed

lemma transact_hasSubmitted:
  "hasSubmitted (snd (transact fromExternal env c w)) user
     \<longleftrightarrow> hasSubmitted w user \<or> successful_submission fromExternal user (env, c)"
proof (cases c)
  case (SubmitPriceGuess encryptedGuess zkProof)
  then show ?thesis
    by (cases "fromExternal env encryptedGuess zkProof")
       (auto simp: submitPriceGuess_def hasSubmitted_def FHE_allow_def FHE_allowThis_def
          emit_def Let_def)
next
  case (AllowDecryption grantee)
  then show ?thesis
    by (auto simp: allowDecryption_def hasSubmitted_def FHE_allow_def)
qed (simp_all add: hasSubmitted_def)

lemma run_hasSubmitted:
  "hasSubmitted (run fromExternal cs w) user
     \<longleftrightarrow> hasSubmitted w user \<or> (\<exists>x \<in> set cs. successful_submission fromExternal user x)"
proof (induction cs arbitrary: w)
  case Nil
  show ?case by simp
next
  case (Cons x cs)
  obtain env c where x: "x = (env, c)" by (cases x)
  show ?case
    unfolding x by (auto simp: Cons.IH transact_hasSubmitted)
qed

text \<open>
  C4. At deployment the submitted flag of every address is false. No call, whether
  \<open>submitPriceGuess\<close>, \<open>allowDecryption\<close> or a view, successful or reverted, takes the
  flag of an address from true to false, and so no history of calls does. After a history
  of calls from deployment the flag of an address is true exactly when the history contains
  a successful \<open>submitPriceGuess\<close> from that address: false up to the first one, true from
  then on.
\<close>

theorem hasSubmitted_never_reset:
  "(\<not> hasSubmitted deployed user)
   \<and> (hasSubmitted w user \<longrightarrow> hasSubmitted (snd (transact fromExternal env c w)) user)
   \<and> (hasSubmitted w user \<longrightarrow> hasSubmitted (run fromExternal cs w) user)
   \<and> (hasSubmitted (run fromExternal cs deployed) user
        \<longleftrightarrow> (\<exists>x \<in> set cs. successful_submission fromExternal user x))
   \<and> (hasSubmitted (run fromExternal cs deployed) user
        \<longrightarrow> hasSubmitted (run fromExternal (cs @ ds) deployed) user)"
proof -
  have "\<not> hasSubmitted deployed user"
    by (simp add: hasSubmitted_def deployed_def)
  then show ?thesis
    by (auto simp: run_hasSubmitted transact_hasSubmitted)
qed

theorem hasSubmitted_never_reset_witness:
  "\<not> hasSubmitted (run mock_fromExternal
        [(charlie, AllowDecryption 2), (charlie, SubmitPriceGuess 5 []), (dana, SubmitPriceGuess 6 [1])]
        deployed) 1
   \<and> hasSubmitted (run mock_fromExternal
        [(charlie, SubmitPriceGuess 5 [1]), (charlie, SubmitPriceGuess 6 []), (charlie, AllowDecryption 2),
         (dana, LastGuessTimestamp 1)] deployed) 1"
  using hasSubmitted_never_reset [of 1 deployed mock_fromExternal charlie "HasSubmitted 1"
      "[(charlie, AllowDecryption 2), (charlie, SubmitPriceGuess 5 []), (dana, SubmitPriceGuess 6 [1])]" "[]"]
    hasSubmitted_never_reset [of 1 deployed mock_fromExternal charlie "HasSubmitted 1"
      "[(charlie, SubmitPriceGuess 5 [1]), (charlie, SubmitPriceGuess 6 []), (charlie, AllowDecryption 2),
         (dana, LastGuessTimestamp 1)]" "[]"]
  by (simp add: mock_fromExternal_def charlie_def dana_def)


lemma transact_ignores_lastGuessTime:
  assumes "\<not> is_LastGuessTimestamp c"
  shows "transact fromExternal env c (w\<lparr> st_lastGuessTime := m \<rparr>)
     = (fst (transact fromExternal env c w),
        (snd (transact fromExternal env c w))
          \<lparr> st_lastGuessTime :=
              (case (c, fst (transact fromExternal env c w)) of
                 (SubmitPriceGuess _ _, Inr _) \<Rightarrow> m(msg_sender env := block_timestamp env)
               | _ \<Rightarrow> m) \<rparr>)"
proof (cases c)
  case (SubmitPriceGuess encryptedGuess zkProof)
  then show ?thesis
    by (cases "fromExternal env encryptedGuess zkProof")
       (simp_all add: submitPriceGuess_def FHE_allow_def FHE_allowThis_def emit_def Let_def)
next
  case (AllowDecryption grantee)
  then show ?thesis
    by (simp add: allowDecryption_def FHE_allow_def)
next
  case (LastGuessTimestamp user)
  with assms show ?thesis by simp
qed (simp_all add: hasSubmitted_def encryptedGuessOf_def)

text \<open>
  C10. Take any state and any other state that differs from it only in the mapping
  \<open>_lastGuessTime\<close>. Each of \<open>submitPriceGuess\<close>, \<open>hasSubmitted\<close>, \<open>encryptedGuessOf\<close>
  and \<open>allowDecryption\<close>, called with the same arguments in the same surroundings, reverts
  in both or succeeds in both, with the same error or the same returned value; and the two
  states they leave have the same log of events, the same ciphertext handles, the same
  submitted flags and the same permissions, so they again differ only in \<open>_lastGuessTime\<close>.
\<close>

theorem lastGuessTime_never_read:
  assumes "c = SubmitPriceGuess encryptedGuess zkProof \<or> c = HasSubmitted user
      \<or> c = EncryptedGuessOf user \<or> c = AllowDecryption grantee"
  shows "fst (transact fromExternal env c (w\<lparr> st_lastGuessTime := m \<rparr>))
           = fst (transact fromExternal env c w)
    \<and> events (snd (transact fromExternal env c (w\<lparr> st_lastGuessTime := m \<rparr>)))
           = events (snd (transact fromExternal env c w))
    \<and> (\<exists>m'. snd (transact fromExternal env c (w\<lparr> st_lastGuessTime := m \<rparr>))
           = (snd (transact fromExternal env c w))\<lparr> st_lastGuessTime := m' \<rparr>)"
proof -
  from assms have "\<not> is_LastGuessTimestamp c"
    by auto
  then have "transact fromExternal env c (w\<lparr> st_lastGuessTime := m \<rparr>)
     = (fst (transact fromExternal env c w),
        (snd (transact fromExternal env c w))
          \<lparr> st_lastGuessTime :=
              (case (c, fst (transact fromExternal env c w)) of
                 (SubmitPriceGuess _ _, Inr _) \<Rightarrow> m(msg_sender env := block_timestamp env)
               | _ \<Rightarrow> m) \<rparr>)"
    (is "?lhs = (?r, ?w'\<lparr> st_lastGuessTime := ?m' \<rparr>)")
    by (rule transact_ignores_lastGuessTime)
  then have "fst ?lhs = ?r" and s: "snd ?lhs = ?w'\<lparr> st_lastGuessTime := ?m' \<rparr>"
    by simp_all
  moreover from s have "events (snd ?lhs) = events ?w'"
    by simp
  moreover from s have "\<exists>m'. snd ?lhs = ?w'\<lparr> st_lastGuessTime := m' \<rparr>"
    by (intro exI [where x = "?m'"])
  ultimately show ?thesis
    by blast
qed

theorem lastGuessTime_never_read_witness:
  "fst (transact mock_fromExternal dana (AllowDecryption 1)
          (deployed\<lparr> st_lastGuessTime := (\<lambda>_. 5) \<rparr>))
     = Inl (RequireFailed ''No guess submitted'')
   \<and> fst (transact mock_fromExternal dana (SubmitPriceGuess 6 [1])
          (deployed\<lparr> st_lastGuessTime := (\<lambda>_. 5) \<rparr>)) = Inr RUnit
   \<and> events (snd (transact mock_fromExternal dana (SubmitPriceGuess 6 [1])
          (deployed\<lparr> st_lastGuessTime := (\<lambda>_. 5) \<rparr>))) = [PriceGuessSubmitted 2 2000]"
proof -
  have a: "fst (transact mock_fromExternal dana (AllowDecryption 1) deployed)
      = Inl (RequireFailed ''No guess submitted'')"
    by (simp add: allowDecryption_def deployed_def)
  have b: "fst (transact mock_fromExternal dana (SubmitPriceGuess 6 [1]) deployed) = Inr RUnit"
    by (simp add: submitPriceGuess_def mock_fromExternal_def Let_def)
  have c: "events (snd (transact mock_fromExternal dana (SubmitPriceGuess 6 [1]) deployed))
      = [PriceGuessSubmitted 2 2000]"
    by (simp add: submitPriceGuess_def mock_fromExternal_def Let_def FHE_allow_def
        FHE_allowThis_def emit_def deployed_def dana_def)
  from lastGuessTime_never_read [of "AllowDecryption 1" 0 "[]" 0 1 mock_fromExternal dana "\<lambda>_. 5" deployed]
    lastGuessTime_never_read [of "SubmitPriceGuess 6 [1]" 6 "[1]" 0 0 mock_fromExternal dana "\<lambda>_. 5" deployed]
    a b c
  show ?thesis by simp
qed

section \<open>Properties of the hook\<close>

text \<open>
  C7. The hook's \<open>hasSubmitted\<close> is false when no handle has been read. For a handle that
  has been read it is true exactly when the handle is not the empty string and is neither
  of the two spellings of the zero handle that the source compares with, \<open>ethers.ZeroHash\<close>
  and \<open>0x0\<close>. A \<open>bytes32\<close> comes back from the chain as 66 characters, and for such a
  handle the value is true exactly when the handle is not \<open>ethers.ZeroHash\<close>.
\<close>

theorem hasSubmitted_hook_iff:
  "hasSubmitted_hook None = False
   \<and> (hasSubmitted_hook (Some h) \<longleftrightarrow> h \<noteq> [] \<and> h \<noteq> ZeroHash \<and> h \<noteq> ''0x0'')
   \<and> (length h = 66 \<longrightarrow> (hasSubmitted_hook (Some h) \<longleftrightarrow> h \<noteq> ZeroHash))"
  by (auto simp: hasSubmitted_hook_def falsy_def ZeroHash_def)

theorem hasSubmitted_hook_iff_witness:
  "\<not> hasSubmitted_hook (Some ZeroHash)
   \<and> \<not> hasSubmitted_hook (Some ''0x0'')
   \<and> hasSubmitted_hook
       (Some ''0x00000000000000000000000000000000000000000000000000000000000009c4'')"
  using hasSubmitted_hook_iff [of ZeroHash] hasSubmitted_hook_iff [of "''0x0''"]
    hasSubmitted_hook_iff [of "''0x00000000000000000000000000000000000000000000000000000000000009c4''"]
  by (simp add: ZeroHash_def)

text \<open>
  C9. \<open>valueDecrypted\<close> is true exactly when a handle has been read, the results hold a
  value under that handle, and the value is not zero. So a guess of zero that has been
  decrypted gives false, the same as a handle with no result at all.
\<close>

theorem valueDecrypted_iff:
  "(valueDecrypted encryptedHandle results \<longleftrightarrow>
      (\<exists>h r val. encryptedHandle = Some h \<and> h \<noteq> [] \<and> results = Some r
          \<and> r h = Some val \<and> val \<noteq> 0))
   \<and> valueDecrypted (Some h) (Some (r(h \<mapsto> 0))) = False
   \<and> valueDecrypted (Some h) (Some (r(h \<mapsto> 0))) = valueDecrypted (Some h) (Some (r(h := None)))"
  by (auto simp: valueDecrypted_def BigInt_def split: option.splits)

theorem valueDecrypted_iff_witness:
  "valueDecrypted (Some ''0x09c4'') (Some [''0x09c4'' \<mapsto> 2500])
   \<and> \<not> valueDecrypted (Some ''0x09c4'') (Some [''0x09c4'' \<mapsto> 0])
   \<and> \<not> valueDecrypted (Some ''0x09c4'') (Some Map.empty)
   \<and> \<not> valueDecrypted (Some ''0x09c4'') None"
  using valueDecrypted_iff [of "Some ''0x09c4''" "Some [''0x09c4'' \<mapsto> 2500]" "''0x09c4''" Map.empty]
    valueDecrypted_iff [of "Some ''0x09c4''" "Some Map.empty" "''0x09c4''" Map.empty]
    valueDecrypted_iff [of "Some ''0x09c4''" None "''0x09c4''" Map.empty]
  by simp

lemma submitValue_guard:
  assumes "busy x \<or> accounts x = None \<or> accounts x = Some [] \<or> first_account x = Some []
      \<or> contractInfo x = None \<or> \<not> hasContract x"
  shows "submitValue x label amount st = st"
proof -
  from assms have "busy x \<or> falsy (first_account x) \<or> \<not> hasContract x"
    by (auto simp: falsy_def first_account_def hasContract_def)
  then show ?thesis
    unfolding submitValue_def by (rule if_P)
qed

lemma submitValue_passes_guard:
  assumes "\<not> busy x" and "\<not> falsy (first_account x)" and "hasContract x"
  shows "\<exists>rs. requests (submitValue x label amount st) = requests st @ Encrypt # rs"
proof -
  have g: "\<not> (busy x \<or> falsy (first_account x) \<or> \<not> hasContract x)"
    using assms by simp
  show ?thesis
    by (simp add: submitValue_def if_not_P [OF g] try_block_def Let_def setBusy_def
        setStatus_def request_def split: outcome.splits option.splits)
qed

lemma submitValue_session:
  "submitValue session label amount st
     = st\<lparr> busy_flag := False, status := ''Value submitted for '' @ label,
           requests := requests st @ [Encrypt, SendTransaction, WaitForReceipt, Reload] \<rparr>"
proof -
  have g: "\<not> (busy session \<or> falsy (first_account session) \<or> \<not> hasContract session)"
    by (simp add: session_def falsy_def first_account_def hasContract_def)
  have c: "getContract session Write = Returns (Some (''0xfe11'', ''signer''))"
    by (simp add: getContract_def hasContract_def falsy_def session_def)
  have e: "encryptWith session amount = Returns (Some (of_nat amount, [1]))"
    and i: "contractInfo session
        = Some \<lparr> info_address = Some ''0xfe11'', info_abi = Some [''submitPriceGuess''] \<rparr>"
    and b: "\<And>encrypted abi. buildParamsFromAbi session encrypted abi = Returns encrypted"
    and s: "\<And>w params. send_submitPriceGuess session w params = Returns ''0x7a''"
    and w: "\<And>tx. tx_wait session tx = Returns ()"
    and r: "reloadValue session = Returns ()"
    by (simp_all add: session_def)
  show ?thesis
    by (simp add: submitValue_def if_not_P [OF g] try_block_def c e i b s w r Let_def
        setBusy_def setStatus_def request_def)
qed

text \<open>
  C8. The guard of \<open>submitValue\<close> reads the \<open>busy\<close> that the callback has captured, and
  \<open>setBusy(true)\<close> does not change it. So a call made through the same callback while a
  first call is waiting for its encryption, the busy flag set, is not dropped. Here a first
  call for 2500 has reached its first \<open>await\<close>; the flag is set. A second call, for 2700,
  through the callback of the same render passes the guard, changes the state, makes its
  own four requests, the transaction among them, and ends by clearing the flag while the
  first call is still under way.
\<close>

theorem submitValue_not_dropped_while_busy:
  "busy_flag (first_await session ''ZamaLaunch'' 2500 idle) = True
   \<and> requests (first_await session ''ZamaLaunch'' 2500 idle) = [Encrypt]
   \<and> submitValue session ''ZamaLaunch'' 2700 (first_await session ''ZamaLaunch'' 2500 idle)
       \<noteq> first_await session ''ZamaLaunch'' 2500 idle
   \<and> requests (submitValue session ''ZamaLaunch'' 2700 (first_await session ''ZamaLaunch'' 2500 idle))
       = [Encrypt, Encrypt, SendTransaction, WaitForReceipt, Reload]
   \<and> status (submitValue session ''ZamaLaunch'' 2700 (first_await session ''ZamaLaunch'' 2500 idle))
       = ''Value submitted for ZamaLaunch''
   \<and> busy_flag (submitValue session ''ZamaLaunch'' 2700 (first_await session ''ZamaLaunch'' 2500 idle))
       = False"
proof -
  let ?st = "first_await session ''ZamaLaunch'' 2500 idle"
  have f: "busy_flag ?st = True" "requests ?st = [Encrypt]"
    by (simp_all add: first_await_def request_def setStatus_def setBusy_def idle_def)
  note s = submitValue_session [of "''ZamaLaunch''" 2700 ?st]
  have r: "requests (submitValue session ''ZamaLaunch'' 2700 ?st)
      = [Encrypt, Encrypt, SendTransaction, WaitForReceipt, Reload]"
    unfolding s by (simp add: f)
  have t: "status (submitValue session ''ZamaLaunch'' 2700 ?st) = ''Value submitted for ZamaLaunch''"
    unfolding s by simp
  have b: "busy_flag (submitValue session ''ZamaLaunch'' 2700 ?st) = False"
    unfolding s by simp
  from b f(1) have n: "submitValue session ''ZamaLaunch'' 2700 ?st \<noteq> ?st"
    by auto
  from f n r t b show ?thesis
    by blast
qed

lemma getContract_Write_None:
  "ethersSigner x = None \<Longrightarrow> getContract x Write = Returns None"
  by (simp add: getContract_def)

lemma try_block_busy_flag:
  "busy_flag (snd (try_block x label amount st)) = busy_flag st"
  by (simp add: try_block_def Let_def setStatus_def request_def
      split: outcome.splits option.splits)

lemma try_block_returns:
  assumes "try_block x label amount st = (None, st')"
  shows "st' = st\<lparr> status := ''Value submitted for '' @ label,
      requests := requests st @ [Encrypt, SendTransaction, WaitForReceipt, Reload] \<rparr>"
  using assms
  by (auto simp: try_block_def Let_def setStatus_def request_def
      split: outcome.splits option.splits)

text \<open>
  C6. Take a call of \<open>submitValue\<close> that passes the guard, in any state of the hook,
  the busy flag set or not. The call sets the flag, the flag is still set wherever the
  \<open>try\<close> block ends or throws, and when the call ends the flag is false, whatever the
  collaborators do. Whenever the block throws, \<open>status\<close> ends as \<open>Submission error: \<close>
  followed by the text of the error, and when it does not throw \<open>status\<close> ends as the
  success message. Every throwing place is covered: the encryption throws or returns
  nothing, the signer is missing, building the contract object or the parameters throws,
  sending the transaction throws, waiting for its receipt throws, reading the value again
  throws; in each case the requests made are those up to the failing one. No request is
  made twice in one call: the requests of a call are a beginning of the sequence encrypt,
  send, wait, reload.
\<close>

theorem submitValue_failure_returns_to_idle:
  assumes "\<not> busy x" and "\<not> falsy (first_account x)" and "hasContract x"
  shows "busy_flag (submitValue x label amount st) = False
    \<and> busy_flag (setStatus (''Encrypting '' @ toString x amount @ '' for '' @ label @ ''...'')
          (setBusy True st)) = True
    \<and> busy_flag (snd (try_block x label amount
          (setStatus (''Encrypting '' @ toString x amount @ '' for '' @ label @ ''...'')
             (setBusy True st)))) = True
    \<and> (fst (try_block x label amount
          (setStatus (''Encrypting '' @ toString x amount @ '' for '' @ label @ ''...'')
             (setBusy True st))) = Some m \<longrightarrow>
          status (submitValue x label amount st) = ''Submission error: '' @ m)
    \<and> (fst (try_block x label amount
          (setStatus (''Encrypting '' @ toString x amount @ '' for '' @ label @ ''...'')
             (setBusy True st))) = None \<longrightarrow>
          status (submitValue x label amount st) = ''Value submitted for '' @ label
          \<and> requests (submitValue x label amount st)
              = requests st @ [Encrypt, SendTransaction, WaitForReceipt, Reload])
    \<and> (encryptWith x amount = Throws m \<longrightarrow>
          status (submitValue x label amount st) = ''Submission error: '' @ m
          \<and> requests (submitValue x label amount st) = requests st @ [Encrypt])
    \<and> (encryptWith x amount = Returns None \<longrightarrow>
          status (submitValue x label amount st) = ''Submission error: Encryption failed''
          \<and> requests (submitValue x label amount st) = requests st @ [Encrypt])
    \<and> (encryptWith x amount = Returns (Some encrypted) \<and> ethersSigner x = None \<longrightarrow>
          status (submitValue x label amount st) = ''Submission error: Contract signer missing''
          \<and> requests (submitValue x label amount st) = requests st @ [Encrypt])
    \<and> (encryptWith x amount = Returns (Some encrypted)
          \<and> getContract x Write = Throws m \<longrightarrow>
          status (submitValue x label amount st) = ''Submission error: '' @ m
          \<and> requests (submitValue x label amount st) = requests st @ [Encrypt])
    \<and> (encryptWith x amount = Returns (Some encrypted)
          \<and> getContract x Write = Returns (Some writeContract)
          \<and> contractInfo x = Some info
          \<and> buildParamsFromAbi x encrypted (info_abi info) = Throws m \<longrightarrow>
          status (submitValue x label amount st) = ''Submission error: '' @ m
          \<and> requests (submitValue x label amount st) = requests st @ [Encrypt])
    \<and> (encryptWith x amount = Returns (Some encrypted)
          \<and> getContract x Write = Returns (Some writeContract)
          \<and> contractInfo x = Some info
          \<and> buildParamsFromAbi x encrypted (info_abi info) = Returns params
          \<and> send_submitPriceGuess x writeContract params = Throws m \<longrightarrow>
          status (submitValue x label amount st) = ''Submission error: '' @ m
          \<and> requests (submitValue x label amount st) = requests st @ [Encrypt, SendTransaction])
    \<and> (encryptWith x amount = Returns (Some encrypted)
          \<and> getContract x Write = Returns (Some writeContract)
          \<and> contractInfo x = Some info
          \<and> buildParamsFromAbi x encrypted (info_abi info) = Returns params
          \<and> send_submitPriceGuess x writeContract params = Returns tx
          \<and> tx_wait x tx = Throws m \<longrightarrow>
          status (submitValue x label amount st) = ''Submission error: '' @ m
          \<and> requests (submitValue x label amount st)
              = requests st @ [Encrypt, SendTransaction, WaitForReceipt])
    \<and> (encryptWith x amount = Returns (Some encrypted)
          \<and> getContract x Write = Returns (Some writeContract)
          \<and> contractInfo x = Some info
          \<and> buildParamsFromAbi x encrypted (info_abi info) = Returns params
          \<and> send_submitPriceGuess x writeContract params = Returns tx
          \<and> tx_wait x tx = Returns ()
          \<and> reloadValue x = Throws m \<longrightarrow>
          status (submitValue x label amount st) = ''Submission error: '' @ m
          \<and> requests (submitValue x label amount st)
              = requests st @ [Encrypt, SendTransaction, WaitForReceipt, Reload])
    \<and> (\<exists>rs \<in> {[Encrypt], [Encrypt, SendTransaction], [Encrypt, SendTransaction, WaitForReceipt],
                [Encrypt, SendTransaction, WaitForReceipt, Reload]}.
          requests (submitValue x label amount st) = requests st @ rs)"
proof -
  let ?R = "submitValue x label amount st"
  let ?st2 = "setStatus (''Encrypting '' @ toString x amount @ '' for '' @ label @ ''...'')
      (setBusy True st)"
  have g: "\<not> (busy x \<or> falsy (first_account x) \<or> \<not> hasContract x)"
    using assms by simp
  note sv = submitValue_def if_not_P [OF g]
  note defs = sv try_block_def Let_def setBusy_def setStatus_def request_def
  have 1: "busy_flag ?R = False"
    by (simp add: sv Let_def setBusy_def split: prod.splits option.splits)
  have 2: "busy_flag ?st2 = True"
    by (simp add: setBusy_def setStatus_def)
  have 3: "busy_flag (snd (try_block x label amount ?st2)) = True"
    by (simp only: try_block_busy_flag 2)
  have 4: "status ?R = ''Submission error: '' @ m"
    if t: "fst (try_block x label amount ?st2) = Some m"
  proof -
    from t obtain st3 where p: "try_block x label amount ?st2 = (Some m, st3)"
      by (cases "try_block x label amount ?st2") simp
    show ?thesis
      unfolding sv Let_def p by (simp add: setBusy_def setStatus_def)
  qed
  have 5: "status ?R = ''Value submitted for '' @ label
      \<and> requests ?R = requests st @ [Encrypt, SendTransaction, WaitForReceipt, Reload]"
    if t: "fst (try_block x label amount ?st2) = None"
  proof -
    from t obtain st3 where p: "try_block x label amount ?st2 = (None, st3)"
      by (cases "try_block x label amount ?st2") simp
    show ?thesis
      unfolding sv Let_def p by (simp add: try_block_returns [OF p] setBusy_def setStatus_def)
  qed
  have 6: "status ?R = ''Submission error: '' @ m \<and> requests ?R = requests st @ [Encrypt]"
    if "encryptWith x amount = Throws m"
    using that by (simp add: defs)
  have 7: "status ?R = ''Submission error: Encryption failed''
      \<and> requests ?R = requests st @ [Encrypt]"
    if "encryptWith x amount = Returns None"
    using that by (simp add: defs)
  have 8: "status ?R = ''Submission error: Contract signer missing''
      \<and> requests ?R = requests st @ [Encrypt]"
    if "encryptWith x amount = Returns (Some encrypted)" and "ethersSigner x = None"
    using that by (simp add: defs getContract_Write_None)
  have 9: "status ?R = ''Submission error: '' @ m \<and> requests ?R = requests st @ [Encrypt]"
    if "encryptWith x amount = Returns (Some encrypted)" and "getContract x Write = Throws m"
    using that by (simp add: defs)
  have 10: "status ?R = ''Submission error: '' @ m \<and> requests ?R = requests st @ [Encrypt]"
    if "encryptWith x amount = Returns (Some encrypted)"
      and "getContract x Write = Returns (Some writeContract)"
      and "contractInfo x = Some info"
      and "buildParamsFromAbi x encrypted (info_abi info) = Throws m"
    using that by (simp add: defs)
  have 11: "status ?R = ''Submission error: '' @ m
      \<and> requests ?R = requests st @ [Encrypt, SendTransaction]"
    if "encryptWith x amount = Returns (Some encrypted)"
      and "getContract x Write = Returns (Some writeContract)"
      and "contractInfo x = Some info"
      and "buildParamsFromAbi x encrypted (info_abi info) = Returns params"
      and "send_submitPriceGuess x writeContract params = Throws m"
    using that by (simp add: defs)
  have 12: "status ?R = ''Submission error: '' @ m
      \<and> requests ?R = requests st @ [Encrypt, SendTransaction, WaitForReceipt]"
    if "encryptWith x amount = Returns (Some encrypted)"
      and "getContract x Write = Returns (Some writeContract)"
      and "contractInfo x = Some info"
      and "buildParamsFromAbi x encrypted (info_abi info) = Returns params"
      and "send_submitPriceGuess x writeContract params = Returns tx"
      and "tx_wait x tx = Throws m"
    using that by (simp add: defs)
  have 13: "status ?R = ''Submission error: '' @ m
      \<and> requests ?R = requests st @ [Encrypt, SendTransaction, WaitForReceipt, Reload]"
    if "encryptWith x amount = Returns (Some encrypted)"
      and "getContract x Write = Returns (Some writeContract)"
      and "contractInfo x = Some info"
      and "buildParamsFromAbi x encrypted (info_abi info) = Returns params"
      and "send_submitPriceGuess x writeContract params = Returns tx"
      and "tx_wait x tx = Returns ()"
      and "reloadValue x = Throws m"
    using that by (simp add: defs)
  have 14: "\<exists>rs \<in> {[Encrypt], [Encrypt, SendTransaction], [Encrypt, SendTransaction, WaitForReceipt],
                [Encrypt, SendTransaction, WaitForReceipt, Reload]}.
          requests ?R = requests st @ rs"
    by (simp add: defs split: outcome.splits option.splits)
  from 1 2 3 4 5 6 7 8 9 10 11 12 13 14 show ?thesis
    by blast
qed

theorem submitValue_failure_returns_to_idle_witness:
  "busy_flag (idle\<lparr> busy_flag := True \<rparr>) = True
   \<and> busy_flag (submitValue (session\<lparr> send_submitPriceGuess := \<lambda>c params. Throws ''user rejected action'' \<rparr>)
          ''ZamaLaunch'' 2500 (idle\<lparr> busy_flag := True \<rparr>)) = False
   \<and> status (submitValue (session\<lparr> send_submitPriceGuess := \<lambda>c params. Throws ''user rejected action'' \<rparr>)
          ''ZamaLaunch'' 2500 (idle\<lparr> busy_flag := True \<rparr>)) = ''Submission error: user rejected action''
   \<and> requests (submitValue (session\<lparr> send_submitPriceGuess := \<lambda>c params. Throws ''user rejected action'' \<rparr>)
          ''ZamaLaunch'' 2500 (idle\<lparr> busy_flag := True \<rparr>)) = [Encrypt, SendTransaction]
   \<and> busy_flag (submitValue (session\<lparr> ethersSigner := None \<rparr>) ''ZamaLaunch'' 2500 idle) = False
   \<and> status (submitValue (session\<lparr> ethersSigner := None \<rparr>) ''ZamaLaunch'' 2500 idle)
       = ''Submission error: Contract signer missing''
   \<and> status (submitValue (session\<lparr> reloadValue := Throws ''network error'' \<rparr>) ''ZamaLaunch'' 2500 idle)
       = ''Submission error: network error''"
proof -
  let ?rejects = "session\<lparr> send_submitPriceGuess := \<lambda>c params. Throws ''user rejected action'' \<rparr>"
  let ?unsigned = "session\<lparr> ethersSigner := None \<rparr>"
  let ?offline = "session\<lparr> reloadValue := Throws ''network error'' \<rparr>"
  let ?info = "\<lparr> info_address = Some ''0xfe11'', info_abi = Some [''submitPriceGuess''] \<rparr>"
  let ?busy = "idle\<lparr> busy_flag := True \<rparr>"
  have i: "busy_flag ?busy = True" "requests ?busy = []"
    by (simp_all add: idle_def)
  have k: "\<not> busy ?rejects" "\<not> busy ?unsigned" "\<not> busy ?offline"
    by (simp_all add: session_def)
  have a: "\<not> falsy (first_account ?rejects)" "\<not> falsy (first_account ?unsigned)"
    "\<not> falsy (first_account ?offline)"
    by (simp_all add: falsy_def first_account_def session_def)
  have h: "hasContract ?rejects" "hasContract ?unsigned" "hasContract ?offline"
    by (simp_all add: hasContract_def falsy_def session_def)
  have e: "encryptWith ?rejects 2500 = Returns (Some (2500, [1]))"
    "encryptWith ?unsigned 2500 = Returns (Some (2500, [1]))"
    "encryptWith ?offline 2500 = Returns (Some (2500, [1]))"
    by (simp_all add: session_def)
  have g: "getContract ?rejects Write = Returns (Some (''0xfe11'', ''signer''))"
    "getContract ?offline Write = Returns (Some (''0xfe11'', ''signer''))"
    by (simp_all add: getContract_def hasContract_def falsy_def session_def)
  have c: "contractInfo ?rejects = Some ?info" "contractInfo ?offline = Some ?info"
    by (simp_all add: session_def)
  have b: "buildParamsFromAbi ?rejects (2500, [1]) (info_abi ?info) = Returns (2500, [1])"
    "buildParamsFromAbi ?offline (2500, [1]) (info_abi ?info) = Returns (2500, [1])"
    by (simp_all add: session_def)
  have s: "send_submitPriceGuess ?rejects (''0xfe11'', ''signer'') (2500, [1])
      = Throws ''user rejected action''"
    "send_submitPriceGuess ?offline (''0xfe11'', ''signer'') (2500, [1]) = Returns ''0x7a''"
    by (simp_all add: session_def)
  have w: "tx_wait ?offline ''0x7a'' = Returns ()"
    by (simp add: session_def)
  have l: "reloadValue ?offline = Throws ''network error''"
    by simp
  have n: "ethersSigner ?unsigned = None"
    by simp
  note r = submitValue_failure_returns_to_idle [OF k(1) a(1) h(1),
      where label = "''ZamaLaunch''" and amount = 2500 and st = ?busy
        and encrypted = "(2500, [1])"
        and writeContract = "(''0xfe11'', ''signer'')" and info = ?info
        and params = "(2500, [1])" and m = "''user rejected action''"]
  note u = submitValue_failure_returns_to_idle [OF k(2) a(2) h(2),
      where label = "''ZamaLaunch''" and amount = 2500 and st = idle
        and encrypted = "(2500, [1])"]
  note v = submitValue_failure_returns_to_idle [OF k(3) a(3) h(3),
      where label = "''ZamaLaunch''" and amount = 2500 and st = idle
        and encrypted = "(2500, [1])"
        and writeContract = "(''0xfe11'', ''signer'')" and info = ?info
        and params = "(2500, [1])" and tx = "''0x7a''" and m = "''network error''"]
  from r e(1) g(1) c(1) b(1) s(1) i
  have 1: "busy_flag (submitValue ?rejects ''ZamaLaunch'' 2500 ?busy) = False
    \<and> status (submitValue ?rejects ''ZamaLaunch'' 2500 ?busy) = ''Submission error: user rejected action''
    \<and> requests (submitValue ?rejects ''ZamaLaunch'' 2500 ?busy) = [Encrypt, SendTransaction]"
    by simp
  from u e(2) n
  have 2: "busy_flag (submitValue ?unsigned ''ZamaLaunch'' 2500 idle) = False
    \<and> status (submitValue ?unsigned ''ZamaLaunch'' 2500 idle)
        = ''Submission error: Contract signer missing''"
    by simp
  from v e(3) g(2) c(2) b(2) s(2) w l
  have 3: "status (submitValue ?offline ''ZamaLaunch'' 2500 idle) = ''Submission error: network error''"
    by simp
  from i(1) 1 2 3 show ?thesis
    by blast
qed

end
